theory Spec2Isabelle
  imports Main
begin

section \<open>Values and envelopes\<close>

text \<open>
  The connector of \<^verbatim>\<open>featureDevChatConnector.ts\<close> relays envelopes between the chat UI and
  the extension host. Envelopes are untyped JavaScript objects (\<^verbatim>\<open>messageData: any\<close>), so
  their fields are modelled as JavaScript values: \<^verbatim>\<open>undefined\<close>, \<^verbatim>\<open>null\<close>, booleans,
  numbers, strings, arrays, and nested plain objects. The connector never reads a property
  of a number, so integers stand for numbers. A nested object (one follow-up option, one
  code reference) is carried as an opaque payload of type \<open>'o\<close>: the connector only passes
  such objects on, and they are taken to have no own property called \<^verbatim>\<open>length\<close>.
\<close>

datatype 'o jsval =
    JUndefined
  | JNull
  | JBool bool
  | JNum int
  | JStr string
  | JArr "'o jsval list"
  | JObj 'o

text \<open>
  An envelope is a flat object: its fields in the order of the object literal. Reading a
  field that is not there gives \<^verbatim>\<open>undefined\<close>, as property access does in JavaScript.
\<close>

type_synonym 'o envelope = "(string \<times> 'o jsval) list"

definition get :: "'o envelope \<Rightarrow> string \<Rightarrow> 'o jsval" where
  "get m k = (case map_of m k of None \<Rightarrow> JUndefined | Some v \<Rightarrow> v)"

text \<open>The only fault the connector can raise by itself is JavaScript's \<^verbatim>\<open>TypeError\<close>.\<close>

datatype fault = TypeError

text \<open>The nullish coalescing operator \<^verbatim>\<open>a ?? b\<close>.\<close>

definition nullish :: "'o jsval \<Rightarrow> 'o jsval \<Rightarrow> 'o jsval" where
  "nullish a b = (if a = JUndefined \<or> a = JNull then b else a)"

text \<open>
  \<^verbatim>\<open>v.length\<close>: a \<^verbatim>\<open>TypeError\<close> on \<^verbatim>\<open>undefined\<close> and \<^verbatim>\<open>null\<close>, the number of elements of
  a string or an array, and \<^verbatim>\<open>undefined\<close> (here \<open>None\<close>) on every other value.
\<close>

fun js_length :: "'o jsval \<Rightarrow> fault + nat option" where
  "js_length JUndefined = Inl TypeError"
| "js_length JNull = Inl TypeError"
| "js_length (JBool b) = Inr None"
| "js_length (JNum n) = Inr None"
| "js_length (JStr s) = Inr (Some (length s))"
| "js_length (JArr xs) = Inr (Some (length xs))"
| "js_length (JObj obj) = Inr None"

text \<open>\<^verbatim>\<open>n > 0\<close> for \<open>n\<close> a length or \<^verbatim>\<open>undefined\<close>; \<^verbatim>\<open>undefined > 0\<close> is false.\<close>

definition gt_zero :: "nat option \<Rightarrow> bool" where
  "gt_zero n = (case n of None \<Rightarrow> False | Some k \<Rightarrow> 0 < k)"

section \<open>Chat items\<close>

text \<open>
  Modelled from the spec: the enumeration \<^verbatim>\<open>ChatItemType\<close> is imported from the UI library
  and is not part of the sources. The connector uses two of its members, the system-prompt
  variant and the code-result variant; they are distinct strings.
\<close>

definition SYSTEM_PROMPT :: string where
  "SYSTEM_PROMPT = ''system-prompt''"

definition CODE_RESULT :: string where
  "CODE_RESULT = ''code-result''"

text \<open>
  The follow-up prompt of a chat item, \<^verbatim>\<open>{ text, options }\<close>, and the chat item itself with
  the six fields the connector fills in. An absent follow-up (\<^verbatim>\<open>undefined\<close>) is \<open>None\<close>.
\<close>

record 'o FollowUp =
  followUp_text :: string
  followUp_options :: "'o jsval"

record 'o ChatItem =
  type :: "'o jsval"
  body :: "'o jsval"
  messageId :: "'o jsval"
  relatedContent :: "'o jsval"
  canBeVoted :: "'o jsval"
  followUp :: "'o FollowUp option"

section \<open>The connector\<close>

text \<open>
  The private fields of class \<^verbatim>\<open>Connector\<close>. The constructor copies each of them from the
  slot of the same purpose in the props, so a slot left out of the props is \<^verbatim>\<open>undefined\<close>
  in the connector: \<open>None\<close>. A callback is a procedure of the UI; it is modelled by its
  effect on the state \<open>'s\<close> of whatever lies outside the connector. The connector has no
  mutable state of its own.
\<close>

record ('o, 's) Connector =
  sendMessageToExtension :: "'o envelope \<Rightarrow> 's \<Rightarrow> 's"
  onError :: "('o jsval \<Rightarrow> 'o jsval \<Rightarrow> 'o jsval \<Rightarrow> 's \<Rightarrow> 's) option"
  onWarning :: "('o jsval \<Rightarrow> 'o jsval \<Rightarrow> 'o jsval \<Rightarrow> 's \<Rightarrow> 's) option"
  onChatAnswerReceived :: "('o jsval \<Rightarrow> 'o ChatItem \<Rightarrow> 's \<Rightarrow> 's) option"
  onAsyncEventProgress :: "('o jsval \<Rightarrow> 'o jsval \<Rightarrow> 'o jsval \<Rightarrow> 's \<Rightarrow> 's) option"
  updatePlaceholder :: "('o jsval \<Rightarrow> 'o jsval \<Rightarrow> 's \<Rightarrow> 's) option"
  chatInputEnabled :: "('o jsval \<Rightarrow> 'o jsval \<Rightarrow> 's \<Rightarrow> 's) option"
  onUpdateAuthentication :: "('o jsval \<Rightarrow> 's \<Rightarrow> 's) option"

subsection \<open>Outbound operations\<close>

text \<open>
  Each operation builds one object literal and hands it to \<^verbatim>\<open>sendMessageToExtension\<close>. An
  optional argument that the caller leaves out is \<^verbatim>\<open>undefined\<close>.
\<close>

definition onCodeInsertToCursorPosition ::
  "('o, 's) Connector \<Rightarrow> 'o jsval \<Rightarrow> 'o jsval \<Rightarrow> 'o jsval \<Rightarrow> 'o jsval \<Rightarrow> 's \<Rightarrow> 's" where
  "onCodeInsertToCursorPosition c tabID code type' codeReference =
     sendMessageToExtension c
       [(''tabID'', tabID),
        (''code'', code),
        (''command'', JStr ''insert_code_at_cursor_position''),
        (''codeReference'', codeReference),
        (''tabType'', JStr ''featuredev'')]"

definition onCopyCodeToClipboard ::
  "('o, 's) Connector \<Rightarrow> 'o jsval \<Rightarrow> 'o jsval \<Rightarrow> 'o jsval \<Rightarrow> 'o jsval \<Rightarrow> 's \<Rightarrow> 's" where
  "onCopyCodeToClipboard c tabID code type' codeReference =
     sendMessageToExtension c
       [(''tabID'', tabID),
        (''code'', code),
        (''command'', JStr ''code_was_copied_to_clipboard''),
        (''codeReference'', codeReference),
        (''tabType'', JStr ''featuredev'')]"

definition onOpenDiff ::
  "('o, 's) Connector \<Rightarrow> 'o jsval \<Rightarrow> 'o jsval \<Rightarrow> 'o jsval \<Rightarrow> 's \<Rightarrow> 's" where
  "onOpenDiff c tabID leftPath rightPath =
     sendMessageToExtension c
       [(''command'', JStr ''open-diff''),
        (''tabID'', tabID),
        (''leftPath'', leftPath),
        (''rightPath'', rightPath),
        (''tabType'', JStr ''featuredev'')]"

definition followUpClicked ::
  "('o, 's) Connector \<Rightarrow> 'o jsval \<Rightarrow> 'o jsval \<Rightarrow> 's \<Rightarrow> 's" where
  "followUpClicked c tabID followUp' =
     sendMessageToExtension c
       [(''command'', JStr ''follow-up-was-clicked''),
        (''followUp'', followUp'),
        (''tabID'', tabID),
        (''tabType'', JStr ''featuredev'')]"

text \<open>
  \<^verbatim>\<open>new Promise(executor)\<close> runs the executor at once, handing it the two functions that
  settle the new promise; a promise is settled at most once. The executor is modelled by
  its effect on the pair of the promise and the outside state.
\<close>

datatype 'v promise = Pending | Fulfilled 'v | Rejected 'v

definition resolve :: "'v \<Rightarrow> 'v promise \<times> 's \<Rightarrow> 'v promise \<times> 's" where
  "resolve v ps = (case fst ps of Pending \<Rightarrow> (Fulfilled v, snd ps) | _ \<Rightarrow> ps)"

definition reject :: "'v \<Rightarrow> 'v promise \<times> 's \<Rightarrow> 'v promise \<times> 's" where
  "reject v ps = (case fst ps of Pending \<Rightarrow> (Rejected v, snd ps) | _ \<Rightarrow> ps)"

definition new_Promise ::
  "(('v \<Rightarrow> 'v promise \<times> 's \<Rightarrow> 'v promise \<times> 's) \<Rightarrow>
    ('v \<Rightarrow> 'v promise \<times> 's \<Rightarrow> 'v promise \<times> 's) \<Rightarrow>
    'v promise \<times> 's \<Rightarrow> 'v promise \<times> 's) \<Rightarrow> 's \<Rightarrow> 'v promise \<times> 's" where
  "new_Promise executor s = executor resolve reject (Pending, s)"

record 'o ChatPayload =
  chatMessage :: "'o jsval"

definition requestGenerativeAIAnswer ::
  "('o, 's) Connector \<Rightarrow> 'o jsval \<Rightarrow> 'o ChatPayload \<Rightarrow> 's \<Rightarrow> 'o jsval promise \<times> 's" where
  "requestGenerativeAIAnswer c tabID payload =
     new_Promise (\<lambda>resolve' reject' ps.
       (fst ps,
        sendMessageToExtension c
          [(''tabID'', tabID),
           (''command'', JStr ''chat-prompt''),
           (''chatMessage'', chatMessage payload),
           (''tabType'', JStr ''featuredev'')] (snd ps)))"

definition onStopChatResponse :: "('o, 's) Connector \<Rightarrow> 'o jsval \<Rightarrow> 's \<Rightarrow> 's" where
  "onStopChatResponse c tabID =
     sendMessageToExtension c
       [(''tabID'', tabID),
        (''command'', JStr ''stop-response'')]"

definition onTabOpen :: "('o, 's) Connector \<Rightarrow> 'o jsval \<Rightarrow> 's \<Rightarrow> 's" where
  "onTabOpen c tabID =
     sendMessageToExtension c
       [(''tabID'', tabID),
        (''command'', JStr ''new-tab-was-created''),
        (''tabType'', JStr ''featuredev'')]"

definition onTabRemove :: "('o, 's) Connector \<Rightarrow> 'o jsval \<Rightarrow> 's \<Rightarrow> 's" where
  "onTabRemove c tabID =
     sendMessageToExtension c
       [(''tabID'', tabID),
        (''command'', JStr ''tab-was-removed''),
        (''tabType'', JStr ''featuredev'')]"

definition sendFeedback :: "('o, 's) Connector \<Rightarrow> 'o jsval \<Rightarrow> 'o jsval \<Rightarrow> 's \<Rightarrow> 's" where
  "sendFeedback c tabId feedbackPayload = (\<lambda>s. s)"

definition onChatItemVoted ::
  "('o, 's) Connector \<Rightarrow> 'o jsval \<Rightarrow> 'o jsval \<Rightarrow> 'o jsval \<Rightarrow> 's \<Rightarrow> 's" where
  "onChatItemVoted c tabId messageId' vote =
     sendMessageToExtension c
       [(''tabID'', tabId),
        (''messageId'', messageId'),
        (''vote'', vote),
        (''command'', JStr ''chat-item-voted''),
        (''tabType'', JStr ''featuredev'')]"

subsection \<open>Inbound processing\<close>

text \<open>
  The condition \<^verbatim>\<open>followUps !== undefined && followUps.length > 0\<close>. The second operand is
  evaluated only when the first holds, so \<^verbatim>\<open>undefined\<close> gives false without a fault, while
  \<^verbatim>\<open>null\<close> passes the first test and faults on \<^verbatim>\<open>.length\<close>.
\<close>

definition hasFollowUps :: "'o jsval \<Rightarrow> fault + bool" where
  "hasFollowUps followUps =
     (if followUps \<noteq> JUndefined
      then (case js_length followUps of Inl e \<Rightarrow> Inl e | Inr n \<Rightarrow> Inr (gt_zero n))
      else Inr False)"

text \<open>
  The object literal bound to \<^verbatim>\<open>answer\<close> in \<^verbatim>\<open>processChatMessage\<close>. Its fields are evaluated
  in order; only the last one can fault, and nothing has been called by then.
\<close>

definition chatMessageAnswer :: "'o envelope \<Rightarrow> fault + 'o ChatItem" where
  "chatMessageAnswer messageData =
     (case hasFollowUps (get messageData ''followUps'') of
        Inl e \<Rightarrow> Inl e
      | Inr nonEmpty \<Rightarrow>
          Inr \<lparr> type = get messageData ''messageType'',
                body = nullish (get messageData ''message'') JUndefined,
                messageId =
                  nullish (get messageData ''messageID'')
                    (nullish (get messageData ''triggerID'') (JStr '''')),
                relatedContent = JUndefined,
                canBeVoted = get messageData ''canBeVoted'',
                followUp =
                  (if nonEmpty
                   then Some \<lparr> followUp_text =
                                 (if get messageData ''messageType'' = JStr SYSTEM_PROMPT
                                  then ''''
                                  else ''Please follow up with one of these''),
                               followUp_options = get messageData ''followUps'' \<rparr>
                   else None) \<rparr>)"

definition processChatMessage ::
  "('o, 's) Connector \<Rightarrow> 'o envelope \<Rightarrow> 's \<Rightarrow> fault + 's" where
  "processChatMessage c messageData s =
     (case onChatAnswerReceived c of
        None \<Rightarrow> Inr s
      | Some received \<Rightarrow>
          (case chatMessageAnswer messageData of
             Inl e \<Rightarrow> Inl e
           | Inr answer \<Rightarrow> Inr (received (get messageData ''tabID'') answer s)))"

text \<open>The object literal bound to \<^verbatim>\<open>answer\<close> in \<^verbatim>\<open>processFilePathMessage\<close>.\<close>

definition filePathAnswer :: "'o envelope \<Rightarrow> 'o ChatItem" where
  "filePathAnswer messageData =
     \<lparr> type = JStr CODE_RESULT,
       body = get messageData ''filePaths'',
       messageId =
         nullish (get messageData ''messageID'')
           (nullish (get messageData ''triggerID'') (get messageData ''conversationID'')),
       relatedContent = JUndefined,
       canBeVoted = JBool True,
       followUp = None \<rparr>"

definition processFilePathMessage ::
  "('o, 's) Connector \<Rightarrow> 'o envelope \<Rightarrow> 's \<Rightarrow> fault + 's" where
  "processFilePathMessage c messageData s =
     (case onChatAnswerReceived c of
        None \<Rightarrow> Inr s
      | Some received \<Rightarrow>
          Inr (received (get messageData ''tabID'') (filePathAnswer messageData) s))"

text \<open>
  Calling a slot that holds \<^verbatim>\<open>undefined\<close> is a \<^verbatim>\<open>TypeError\<close>. The arguments are property
  reads of the envelope and cannot fault. The result is the settled state of the promise
  the asynchronous function returns: \<open>Inr\<close> the outside state when it is fulfilled,
  \<open>Inl\<close> the fault when it is rejected.
\<close>

definition handleMessageReceive ::
  "('o, 's) Connector \<Rightarrow> 'o envelope \<Rightarrow> 's \<Rightarrow> fault + 's" where
  "handleMessageReceive c messageData s =
     (if get messageData ''type'' = JStr ''errorMessage'' then
        (case onError c of
           None \<Rightarrow> Inl TypeError
         | Some f \<Rightarrow>
             Inr (f (get messageData ''tabID'') (get messageData ''message'')
                    (get messageData ''title'') s))
      else if get messageData ''type'' = JStr ''showInvalidTokenNotification'' then
        (case onWarning c of
           None \<Rightarrow> Inl TypeError
         | Some f \<Rightarrow>
             Inr (f (get messageData ''tabID'') (get messageData ''message'')
                    (get messageData ''title'') s))
      else if get messageData ''type'' = JStr ''chatMessage'' then
        processChatMessage c messageData s
      else if get messageData ''type'' = JStr ''filePathMessage'' then
        processFilePathMessage c messageData s
      else if get messageData ''type'' = JStr ''asyncEventProgressMessage'' then
        (case onAsyncEventProgress c of
           None \<Rightarrow> Inl TypeError
         | Some f \<Rightarrow>
             Inr (f (get messageData ''tabID'') (get messageData ''inProgress'')
                    (nullish (get messageData ''message'') JUndefined) s))
      else if get messageData ''type'' = JStr ''updatePlaceholderMessage'' then
        (case updatePlaceholder c of
           None \<Rightarrow> Inl TypeError
         | Some f \<Rightarrow>
             Inr (f (get messageData ''tabID'') (get messageData ''newPlaceholder'') s))
      else if get messageData ''type'' = JStr ''chatInputEnabledMessage'' then
        (case chatInputEnabled c of
           None \<Rightarrow> Inl TypeError
         | Some f \<Rightarrow> Inr (f (get messageData ''tabID'') (get messageData ''enabled'') s))
      else if get messageData ''type'' = JStr ''authenticationUpdateMessage'' then
        (case onUpdateAuthentication c of
           None \<Rightarrow> Inl TypeError
         | Some f \<Rightarrow> Inr (f (get messageData ''featureDevEnabled'') s))
      else Inr s)"

subsection \<open>A recording connector\<close>

text \<open>
  To observe which slots are called, with which arguments and in which order, the outside
  state is taken to be a log of calls, and every slot appends its own call to the log.
\<close>

datatype 'o call =
    SendMessageToExtension "'o envelope"
  | OnError "'o jsval" "'o jsval" "'o jsval"
  | OnWarning "'o jsval" "'o jsval" "'o jsval"
  | OnChatAnswerReceived "'o jsval" "'o ChatItem"
  | OnAsyncEventProgress "'o jsval" "'o jsval" "'o jsval"
  | UpdatePlaceholder "'o jsval" "'o jsval"
  | ChatInputEnabled "'o jsval" "'o jsval"
  | OnUpdateAuthentication "'o jsval"

definition recording :: "('o, 'o call list) Connector" where
  "recording =
     \<lparr> sendMessageToExtension = (\<lambda>message log. log @ [SendMessageToExtension message]),
       onError = Some (\<lambda>tabID message title log. log @ [OnError tabID message title]),
       onWarning = Some (\<lambda>tabID message title log. log @ [OnWarning tabID message title]),
       onChatAnswerReceived =
         Some (\<lambda>tabID message log. log @ [OnChatAnswerReceived tabID message]),
       onAsyncEventProgress =
         Some (\<lambda>tabID inProgress message log.
                 log @ [OnAsyncEventProgress tabID inProgress message]),
       updatePlaceholder =
         Some (\<lambda>tabID newPlaceholder log. log @ [UpdatePlaceholder tabID newPlaceholder]),
       chatInputEnabled = Some (\<lambda>tabID enabled log. log @ [ChatInputEnabled tabID enabled]),
       onUpdateAuthentication =
         Some (\<lambda>featureDevEnabled log. log @ [OnUpdateAuthentication featureDevEnabled]) \<rparr>"

subsection \<open>The set of discriminators and the chain of the specification\<close>

text \<open>
  The eight strings that \<^verbatim>\<open>handleMessageReceive\<close> compares the \<^verbatim>\<open>type\<close> field with, in
  the order of its tests.
\<close>

definition recognised :: "string list" where
  "recognised =
     [''errorMessage'', ''showInvalidTokenNotification'', ''chatMessage'', ''filePathMessage'',
      ''asyncEventProgressMessage'', ''updatePlaceholderMessage'', ''chatInputEnabledMessage'',
      ''authenticationUpdateMessage'']"

text \<open>
  The fallback chain as the specification words it, for comparison with the code: of the
  values listed, the first that is there (neither \<^verbatim>\<open>undefined\<close> nor \<^verbatim>\<open>null\<close>) wins.
\<close>

fun spec_fallback_chain :: "'o jsval list \<Rightarrow> 'o jsval" where
  "spec_fallback_chain [] = JUndefined"
| "spec_fallback_chain (v # vs) =
     (if v = JUndefined \<or> v = JNull then spec_fallback_chain vs else v)"

section \<open>Auxiliary facts\<close>

lemma recording_slots:
  "onError recording \<noteq> None" "onWarning recording \<noteq> None"
  "onChatAnswerReceived recording \<noteq> None" "onAsyncEventProgress recording \<noteq> None"
  "updatePlaceholder recording \<noteq> None" "chatInputEnabled recording \<noteq> None"
  "onUpdateAuthentication recording \<noteq> None"
  by (simp_all add: recording_def)

lemma hasFollowUps_no_fault: "v \<noteq> JNull \<Longrightarrow> \<exists>b. hasFollowUps v = Inr b"
  by (cases v) (auto simp add: hasFollowUps_def)


text \<open>
  Eight of the nine outbound operations that send an envelope put the caller's tab
  identifier and the tag \<^verbatim>\<open>tabType: 'featuredev'\<close> into it.
\<close>

lemma tagged_outbound_operations:
  "onCodeInsertToCursorPosition recording tabID code type' codeReference log
     = log @ [SendMessageToExtension e] \<Longrightarrow>
   get e ''tabID'' = tabID \<and> get e ''tabType'' = JStr ''featuredev''"
  "onCopyCodeToClipboard recording tabID code type' codeReference log
     = log @ [SendMessageToExtension e] \<Longrightarrow>
   get e ''tabID'' = tabID \<and> get e ''tabType'' = JStr ''featuredev''"
  "onOpenDiff recording tabID leftPath rightPath log = log @ [SendMessageToExtension e] \<Longrightarrow>
   get e ''tabID'' = tabID \<and> get e ''tabType'' = JStr ''featuredev''"
  "followUpClicked recording tabID followUp' log = log @ [SendMessageToExtension e] \<Longrightarrow>
   get e ''tabID'' = tabID \<and> get e ''tabType'' = JStr ''featuredev''"
  "requestGenerativeAIAnswer recording tabID payload log
     = (p, log @ [SendMessageToExtension e]) \<Longrightarrow>
   get e ''tabID'' = tabID \<and> get e ''tabType'' = JStr ''featuredev''"
  "onTabOpen recording tabID log = log @ [SendMessageToExtension e] \<Longrightarrow>
   get e ''tabID'' = tabID \<and> get e ''tabType'' = JStr ''featuredev''"
  "onTabRemove recording tabID log = log @ [SendMessageToExtension e] \<Longrightarrow>
   get e ''tabID'' = tabID \<and> get e ''tabType'' = JStr ''featuredev''"
  "onChatItemVoted recording tabID messageId' vote log = log @ [SendMessageToExtension e] \<Longrightarrow>
   get e ''tabID'' = tabID \<and> get e ''tabType'' = JStr ''featuredev''"
  by (auto simp add: onCodeInsertToCursorPosition_def onCopyCodeToClipboard_def onOpenDiff_def
      followUpClicked_def requestGenerativeAIAnswer_def new_Promise_def onTabOpen_def
      onTabRemove_def onChatItemVoted_def recording_def get_def)

section \<open>Outbound envelopes\<close>

text \<open>
  Claim C1. Every outbound operation is to put the caller's tab identifier and the tag
  \<^verbatim>\<open>tabType: 'featuredev'\<close> into its envelope. The stop-response operation does not: called
  with the tab identifier \<^verbatim>\<open>'tab-1'\<close> it sends exactly one envelope, which holds the tab
  identifier and the command and has no \<^verbatim>\<open>tabType\<close> field.
\<close>

theorem onStopChatResponse_omits_tabType:
  "onStopChatResponse recording (JStr ''tab-1'') ([] :: unit call list)
     = [SendMessageToExtension
          [(''tabID'', JStr ''tab-1''), (''command'', JStr ''stop-response'')]]
   \<and> map_of [(''tabID'', JStr ''tab-1'' :: unit jsval), (''command'', JStr ''stop-response'')]
        ''tabType'' = None
   \<and> get [(''tabID'', JStr ''tab-1'' :: unit jsval), (''command'', JStr ''stop-response'')]
        ''tabType'' \<noteq> JStr ''featuredev''"
  by (simp add: onStopChatResponse_def recording_def get_def)

section \<open>Omitted callbacks\<close>

text \<open>
  Claim C2, as stated, fails: a connector built without the error callback faults on an
  \<^verbatim>\<open>errorMessage\<close> envelope, because the slot is called without a test.
\<close>

theorem omitted_onError_faults:
  "handleMessageReceive (recording\<lparr>onError := None\<rparr>)
     [(''type'', JStr ''errorMessage''), (''tabID'', JStr ''tab-1''), (''message'', JStr ''boom'')]
     ([] :: unit call list)
   = Inl TypeError"
  by (simp add: handleMessageReceive_def get_def)

text \<open>
  Claim C2, amended. The answer-received callback is the one slot that the code tests before
  calling. When it was omitted at construction, a \<^verbatim>\<open>chatMessage\<close> or \<^verbatim>\<open>filePathMessage\<close>
  envelope raises no fault and leaves the outside state as it was: no callback is invoked.
\<close>

theorem omitted_answer_callback_drops_event:
  assumes "onChatAnswerReceived c = None"
    and "get messageData ''type'' = JStr ''chatMessage''
         \<or> get messageData ''type'' = JStr ''filePathMessage''"
  shows "handleMessageReceive c messageData s = Inr s"
  using assms
  by (auto simp add: handleMessageReceive_def processChatMessage_def processFilePathMessage_def)

theorem omitted_answer_callback_drops_event_witness:
  "onChatAnswerReceived (recording\<lparr>onChatAnswerReceived := None\<rparr>
      :: (unit, unit call list) Connector) = None
   \<and> handleMessageReceive (recording\<lparr>onChatAnswerReceived := None\<rparr>)
        [(''type'', JStr ''chatMessage''), (''tabID'', JStr ''tab-1''),
         (''message'', JStr ''hello''), (''followUps'', JArr [JStr ''Retry''])]
        ([] :: unit call list) = Inr []
   \<and> handleMessageReceive (recording\<lparr>onChatAnswerReceived := None\<rparr>)
        [(''type'', JStr ''filePathMessage''), (''tabID'', JStr ''tab-1''),
         (''filePaths'', JArr [JStr ''src/a.ts''])]
        ([] :: unit call list) = Inr []"
  using
    omitted_answer_callback_drops_event [of "recording\<lparr>onChatAnswerReceived := None\<rparr>"
      "[(''type'', JStr ''chatMessage''), (''tabID'', JStr ''tab-1''),
        (''message'', JStr ''hello''), (''followUps'', JArr [JStr ''Retry''])]"
      "[] :: unit call list"]
    omitted_answer_callback_drops_event [of "recording\<lparr>onChatAnswerReceived := None\<rparr>"
      "[(''type'', JStr ''filePathMessage''), (''tabID'', JStr ''tab-1''),
        (''filePaths'', JArr [JStr ''src/a.ts''])]"
      "[] :: unit call list"]
  by (simp add: get_def)

section \<open>The message identifier of a chat item\<close>

text \<open>
  Claim C3, as stated, fails: the chain of a \<^verbatim>\<open>chatMessage\<close> envelope ends in the empty
  string and never reads \<^verbatim>\<open>conversationID\<close>. With \<^verbatim>\<open>messageID\<close> and \<^verbatim>\<open>triggerID\<close> absent
  and \<^verbatim>\<open>conversationID = 'C'\<close> the chat item gets the identifier \<^verbatim>\<open>''\<close>, where the chain
  \<^verbatim>\<open>messageID\<close>, \<^verbatim>\<open>triggerID\<close>, \<^verbatim>\<open>conversationID\<close> gives \<^verbatim>\<open>'C'\<close>.
\<close>

theorem chatMessage_ignores_conversationID:
  "handleMessageReceive recording
     [(''type'', JStr ''chatMessage''), (''tabID'', JStr ''tab-1''),
      (''conversationID'', JStr ''C'')]
     ([] :: unit call list)
   = Inr [OnChatAnswerReceived (JStr ''tab-1'')
            \<lparr> type = JUndefined, body = JUndefined, messageId = JStr '''',
              relatedContent = JUndefined, canBeVoted = JUndefined, followUp = None \<rparr>]
   \<and> spec_fallback_chain
        [get [(''type'', JStr ''chatMessage''), (''tabID'', JStr ''tab-1''),
              (''conversationID'', JStr ''C'')] ''messageID'',
         get [(''type'', JStr ''chatMessage''), (''tabID'', JStr ''tab-1''),
              (''conversationID'', JStr ''C'')] ''triggerID'',
         get [(''type'', JStr ''chatMessage''), (''tabID'', JStr ''tab-1''),
              (''conversationID'', JStr ''C'')] ''conversationID'']
       = (JStr ''C'' :: unit jsval)"
  by (simp add: handleMessageReceive_def processChatMessage_def chatMessageAnswer_def
      hasFollowUps_def nullish_def recording_def get_def)

text \<open>
  Claim C3, amended. With the answer-received callback registered, the identifier of the
  chat item built from a \<^verbatim>\<open>chatMessage\<close> envelope (whose \<^verbatim>\<open>followUps\<close> is not \<^verbatim>\<open>null\<close>) is
  \<^verbatim>\<open>messageID\<close> when that is neither \<^verbatim>\<open>undefined\<close> nor \<^verbatim>\<open>null\<close>, otherwise \<^verbatim>\<open>triggerID\<close>
  when that is neither \<^verbatim>\<open>undefined\<close> nor \<^verbatim>\<open>null\<close>, otherwise the empty string. For a
  \<^verbatim>\<open>filePathMessage\<close> envelope the first two steps are the same and the last resort is the
  value of \<^verbatim>\<open>conversationID\<close>.
\<close>

theorem messageId_fallback:
  assumes "onChatAnswerReceived c \<noteq> None"
  shows "(get messageData ''type'' = JStr ''chatMessage''
            \<and> get messageData ''followUps'' \<noteq> JNull \<longrightarrow>
          (\<exists>answer. chatMessageAnswer messageData = Inr answer
             \<and> handleMessageReceive c messageData s
                 = Inr (the (onChatAnswerReceived c) (get messageData ''tabID'') answer s)
             \<and> messageId answer =
                 (if get messageData ''messageID'' \<noteq> JUndefined
                     \<and> get messageData ''messageID'' \<noteq> JNull
                  then get messageData ''messageID''
                  else if get messageData ''triggerID'' \<noteq> JUndefined
                     \<and> get messageData ''triggerID'' \<noteq> JNull
                  then get messageData ''triggerID''
                  else JStr '''')))
       \<and> (get messageData ''type'' = JStr ''filePathMessage'' \<longrightarrow>
            handleMessageReceive c messageData s
              = Inr (the (onChatAnswerReceived c) (get messageData ''tabID'')
                       (filePathAnswer messageData) s)
            \<and> messageId (filePathAnswer messageData) =
                 (if get messageData ''messageID'' \<noteq> JUndefined
                     \<and> get messageData ''messageID'' \<noteq> JNull
                  then get messageData ''messageID''
                  else if get messageData ''triggerID'' \<noteq> JUndefined
                     \<and> get messageData ''triggerID'' \<noteq> JNull
                  then get messageData ''triggerID''
                  else get messageData ''conversationID''))"
  using assms hasFollowUps_no_fault [of "get messageData ''followUps''"]
  by (auto simp add: handleMessageReceive_def processChatMessage_def
      processFilePathMessage_def chatMessageAnswer_def filePathAnswer_def nullish_def)

text \<open>
  The four examples of the specification: both identifiers absent in a \<^verbatim>\<open>chatMessage\<close>;
  \<^verbatim>\<open>messageID = 'A'\<close> with \<^verbatim>\<open>triggerID = 'B'\<close>; \<^verbatim>\<open>messageID\<close> missing with
  \<^verbatim>\<open>triggerID = 'B'\<close>; both absent in a \<^verbatim>\<open>filePathMessage\<close> with \<^verbatim>\<open>conversationID = 'C'\<close>.
\<close>

theorem messageId_fallback_witness:
  "handleMessageReceive recording
     [(''type'', JStr ''chatMessage''), (''tabID'', JStr ''tab-1''),
      (''message'', JStr ''hello'')]
     ([] :: unit call list)
   = Inr [OnChatAnswerReceived (JStr ''tab-1'')
            \<lparr> type = JUndefined, body = JStr ''hello'', messageId = JStr '''',
              relatedContent = JUndefined, canBeVoted = JUndefined, followUp = None \<rparr>]
   \<and> handleMessageReceive recording
     [(''type'', JStr ''chatMessage''), (''tabID'', JStr ''tab-1''),
      (''messageID'', JStr ''A''), (''triggerID'', JStr ''B'')]
     ([] :: unit call list)
   = Inr [OnChatAnswerReceived (JStr ''tab-1'')
            \<lparr> type = JUndefined, body = JUndefined, messageId = JStr ''A'',
              relatedContent = JUndefined, canBeVoted = JUndefined, followUp = None \<rparr>]
   \<and> handleMessageReceive recording
     [(''type'', JStr ''chatMessage''), (''tabID'', JStr ''tab-1''),
      (''messageID'', JNull), (''triggerID'', JStr ''B'')]
     ([] :: unit call list)
   = Inr [OnChatAnswerReceived (JStr ''tab-1'')
            \<lparr> type = JUndefined, body = JUndefined, messageId = JStr ''B'',
              relatedContent = JUndefined, canBeVoted = JUndefined, followUp = None \<rparr>]
   \<and> handleMessageReceive recording
     [(''type'', JStr ''filePathMessage''), (''tabID'', JStr ''tab-1''),
      (''conversationID'', JStr ''C'')]
     ([] :: unit call list)
   = Inr [OnChatAnswerReceived (JStr ''tab-1'')
            \<lparr> type = JStr ''code-result'', body = JUndefined, messageId = JStr ''C'',
              relatedContent = JUndefined, canBeVoted = JBool True, followUp = None \<rparr>]"
  using
    messageId_fallback [OF recording_slots(3), of
      "[(''type'', JStr ''chatMessage''), (''tabID'', JStr ''tab-1''),
        (''message'', JStr ''hello'')]" "[] :: unit call list"]
    messageId_fallback [OF recording_slots(3), of
      "[(''type'', JStr ''chatMessage''), (''tabID'', JStr ''tab-1''),
        (''messageID'', JStr ''A''), (''triggerID'', JStr ''B'')]" "[] :: unit call list"]
    messageId_fallback [OF recording_slots(3), of
      "[(''type'', JStr ''chatMessage''), (''tabID'', JStr ''tab-1''),
        (''messageID'', JNull), (''triggerID'', JStr ''B'')]" "[] :: unit call list"]
    messageId_fallback [OF recording_slots(3), of
      "[(''type'', JStr ''filePathMessage''), (''tabID'', JStr ''tab-1''),
        (''conversationID'', JStr ''C'')]" "[] :: unit call list"]
  by (simp add: get_def recording_def chatMessageAnswer_def hasFollowUps_def
      filePathAnswer_def nullish_def CODE_RESULT_def)

section \<open>The follow-up of a chat message\<close>



section \<open>File path messages\<close>

text \<open>
  Claim C5. For a \<^verbatim>\<open>filePathMessage\<close> envelope and a registered answer-received callback,
  the callback is invoked with the envelope's tab identifier and a chat item whose type is
  the code-result variant, whose body is the envelope's \<^verbatim>\<open>filePaths\<close> field and whose
  vote-ability flag is \<^verbatim>\<open>true\<close>, whatever else the envelope holds.
\<close>

theorem filePathMessage_answer:
  assumes "get messageData ''type'' = JStr ''filePathMessage''"
    and "onChatAnswerReceived c \<noteq> None"
  shows "handleMessageReceive c messageData s
           = Inr (the (onChatAnswerReceived c) (get messageData ''tabID'')
                    (filePathAnswer messageData) s)
         \<and> type (filePathAnswer messageData) = JStr CODE_RESULT
         \<and> body (filePathAnswer messageData) = get messageData ''filePaths''
         \<and> canBeVoted (filePathAnswer messageData) = JBool True"
  using assms
  by (auto simp add: handleMessageReceive_def processFilePathMessage_def filePathAnswer_def)

theorem filePathMessage_answer_witness:
  "handleMessageReceive recording
     [(''type'', JStr ''filePathMessage''), (''tabID'', JStr ''tab-1''),
      (''filePaths'', JArr [JStr ''src/a.ts'']), (''canBeVoted'', JBool False),
      (''messageType'', JStr ''answer'')]
     ([] :: unit call list)
   = Inr [OnChatAnswerReceived (JStr ''tab-1'')
            \<lparr> type = JStr ''code-result'', body = JArr [JStr ''src/a.ts''],
              messageId = JUndefined, relatedContent = JUndefined,
              canBeVoted = JBool True, followUp = None \<rparr>]"
  using filePathMessage_answer [of "[(''type'', JStr ''filePathMessage''),
      (''tabID'', JStr ''tab-1''), (''filePaths'', JArr [JStr ''src/a.ts'']),
      (''canBeVoted'', JBool False), (''messageType'', JStr ''answer'')]"
      recording "[] :: unit call list"]
  by (simp add: get_def recording_def filePathAnswer_def nullish_def CODE_RESULT_def)

text \<open>
  Claim C9. For a \<^verbatim>\<open>filePathMessage\<close> envelope, the chat item handed to the answer-received
  callback has no follow-up, also when the envelope brings a non-empty \<^verbatim>\<open>followUps\<close> list.
\<close>

theorem filePathMessage_no_followUp:
  assumes "get messageData ''type'' = JStr ''filePathMessage''"
    and "onChatAnswerReceived c \<noteq> None"
  shows "handleMessageReceive c messageData s
           = Inr (the (onChatAnswerReceived c) (get messageData ''tabID'')
                    (filePathAnswer messageData) s)
         \<and> followUp (filePathAnswer messageData) = None"
  using assms
  by (auto simp add: handleMessageReceive_def processFilePathMessage_def filePathAnswer_def)

theorem filePathMessage_no_followUp_witness:
  "handleMessageReceive recording
     [(''type'', JStr ''filePathMessage''), (''tabID'', JStr ''tab-1''),
      (''filePaths'', JArr [JStr ''src/a.ts'']),
      (''followUps'', JArr [JStr ''Accept'', JStr ''Retry''])]
     ([] :: unit call list)
   = Inr [OnChatAnswerReceived (JStr ''tab-1'')
            \<lparr> type = JStr ''code-result'', body = JArr [JStr ''src/a.ts''],
              messageId = JUndefined, relatedContent = JUndefined,
              canBeVoted = JBool True, followUp = None \<rparr>]"
  using filePathMessage_no_followUp [of "[(''type'', JStr ''filePathMessage''),
      (''tabID'', JStr ''tab-1''), (''filePaths'', JArr [JStr ''src/a.ts'']),
      (''followUps'', JArr [JStr ''Accept'', JStr ''Retry''])]" recording
      "[] :: unit call list"]
  by (simp add: get_def recording_def filePathAnswer_def nullish_def CODE_RESULT_def)

section \<open>Dispatch on the discriminator\<close>




section \<open>Unrecognised envelopes\<close>

text \<open>
  Claim C7. An envelope whose \<^verbatim>\<open>type\<close> field is none of the eight recognised discriminator
  strings is ignored by \<^verbatim>\<open>handleMessageReceive\<close>: the promise is fulfilled (no fault) and
  the outside state is unchanged (no callback is invoked), whatever the connector holds.
\<close>

theorem handleMessageReceive_unrecognised:
  assumes "get messageData ''type'' \<notin> JStr ` set recognised"
  shows "handleMessageReceive c messageData s = Inr s"
  using assms by (simp add: handleMessageReceive_def recognised_def)

theorem handleMessageReceive_unrecognised_witness:
  "get [(''type'', JStr ''somethingNew''), (''tabID'', JStr ''tab-1'')] ''type''
      \<notin> JStr ` set recognised
   \<and> handleMessageReceive recording
        [(''type'', JStr ''somethingNew''), (''tabID'', JStr ''tab-1'')] ([] :: unit call list)
      = Inr []"
  using handleMessageReceive_unrecognised
    [of "[(''type'', JStr ''somethingNew''), (''tabID'', JStr ''tab-1'')]"
      recording "[] :: unit call list"]
  by (simp add: get_def recognised_def)

section \<open>Requesting an answer\<close>

text \<open>
  Claim C8. A call \<^verbatim>\<open>requestGenerativeAIAnswer(tabID, payload)\<close> hands exactly one envelope
  to \<^verbatim>\<open>sendMessageToExtension\<close>, with the command \<^verbatim>\<open>chat-prompt\<close>, the given tab
  identifier, the chat message of the payload and the tag \<^verbatim>\<open>tabType: 'featuredev'\<close>. The
  promise it returns is pending: the executor settles it neither way and keeps neither of
  the two settling functions, so nothing in the connector can settle it later.
\<close>

theorem requestGenerativeAIAnswer_sends_once_and_stays_pending:
  "requestGenerativeAIAnswer c tabID payload s =
     (Pending,
      sendMessageToExtension c
        [(''tabID'', tabID),
         (''command'', JStr ''chat-prompt''),
         (''chatMessage'', chatMessage payload),
         (''tabType'', JStr ''featuredev'')] s)"
  by (simp add: requestGenerativeAIAnswer_def new_Promise_def)

section \<open>Inbound processing sends nothing\<close>

text \<open>
  Claim C10. Whatever the envelope and its \<^verbatim>\<open>type\<close> field, \<^verbatim>\<open>handleMessageReceive\<close> never
  calls \<^verbatim>\<open>sendMessageToExtension\<close>: its outcome is the same whichever function sits in
  that slot.
\<close>

theorem handleMessageReceive_never_sends:
  "handleMessageReceive (c\<lparr>sendMessageToExtension := send\<rparr>) messageData s
     = handleMessageReceive c messageData s"
  by (simp add: handleMessageReceive_def processChatMessage_def processFilePathMessage_def)

end
